theory Spec2Isabelle
  imports Complex_Main
begin

section \<open>Python values, exceptions and builtins\<close>

text \<open>
  The transports hand dynamically typed values around (decoded JSON frames, stream
  messages, HTTP response bodies).  \<open>pyval\<close> is the part of Python's value universe
  that these can hold.  A dict is the list of its items (keys distinct, looked up with
  \<open>map_of\<close>).  Python's \<open>float\<close> is modelled by \<open>real\<close>: the code stores and
  forwards progress values and never computes with them, so rounding, infinities and NaN
  are outside the model.
\<close>

datatype pyval =
    PNone
  | PBool bool
  | PInt int
  | PFloat real
  | PStr string
  | PList "pyval list"
  | PDict "(string \<times> pyval) list"

text \<open>
  Exceptions as values.  \<open>CancelledError\<close> is asyncio's cancellation; it derives from
  \<open>BaseException\<close>, so an \<open>except Exception\<close> clause does not catch it.  All the
  others derive from \<open>Exception\<close>.
\<close>

datatype exn =
    CancelledError
  | RuntimeError pyval
  | TypeError
  | ValueError
  | AttributeError
  | HTTPStatusError string
  | RequestError string
  | OverflowError
  | OtherException string

text \<open>\<open>obj.get(key, default)\<close>: only a dict has the method.\<close>

fun py_get :: "pyval \<Rightarrow> string \<Rightarrow> pyval \<Rightarrow> exn + pyval" where
  "py_get (PDict items) key dflt =
     (case map_of items key of None \<Rightarrow> Inr dflt | Some v \<Rightarrow> Inr v)"
| "py_get _ key dflt = Inl AttributeError"

text \<open>
  \<open>float(i)\<close> of an integer is exact below \<open>2^53\<close>; a larger magnitude is rounded
  to 53 significant bits, to the nearest value and to the even one on a tie, and
  \<open>OverflowError\<close> is raised when the rounded magnitude reaches \<open>2^1024\<close>.
\<close>

function bit_length :: "int \<Rightarrow> nat" where
  "bit_length n = (if n \<le> 0 then 0 else Suc (bit_length (n div 2)))"
  by pat_completeness auto

termination
  by (relation "measure nat") auto

declare bit_length.simps [simp del]

definition round_to_double :: "int \<Rightarrow> int" where
  "round_to_double n =
     (if n < 2 ^ 53 then n
      else
        (let e = bit_length n - 53;
             q = n div 2 ^ e;
             r = n mod 2 ^ e;
             half = 2 ^ (e - 1)
         in (if half < r then q + 1
             else if r = half \<and> q mod 2 = 1 then q + 1
             else q) * 2 ^ e))"

text \<open>
  \<open>float(x)\<close>.  Parsing the text of a string is left to the parameter \<open>parse\<close>
  (\<open>None\<close> when the text is no number, which raises \<open>ValueError\<close>).
\<close>

fun py_float :: "(string \<Rightarrow> real option) \<Rightarrow> pyval \<Rightarrow> exn + real" where
  "py_float parse (PFloat r) = Inr r"
| "py_float parse (PInt i) =
     (let m = round_to_double \<bar>i\<bar>
      in if m < 2 ^ 1024 then Inr (of_int (sgn i * m)) else Inl OverflowError)"
| "py_float parse (PBool b) = Inr (if b then 1 else 0)"
| "py_float parse (PStr s) = (case parse s of None \<Rightarrow> Inl ValueError | Some r \<Rightarrow> Inr r)"
| "py_float parse PNone = Inl TypeError"
| "py_float parse (PList xs) = Inl TypeError"
| "py_float parse (PDict items) = Inl TypeError"

text \<open>Truth value of an object, as \<open>if not x\<close> tests it.\<close>

fun py_truthy :: "pyval \<Rightarrow> bool" where
  "py_truthy PNone = False"
| "py_truthy (PBool b) = b"
| "py_truthy (PInt i) = (i \<noteq> 0)"
| "py_truthy (PFloat r) = (r \<noteq> 0)"
| "py_truthy (PStr s) = (s \<noteq> [])"
| "py_truthy (PList xs) = (xs \<noteq> [])"
| "py_truthy (PDict items) = (items \<noteq> [])"


section \<open>State domain models (core/app\_state.py)\<close>

record UserState =
  user_id :: "string option"
  username :: "string option"
  plan :: string
  authenticated :: bool

record ProjectState =
  project_id :: "string option"
  title :: string
  dirty :: bool
  mode :: string

record GenerationState =
  in_progress :: bool
  progress :: real
  last_error :: "string option"

record BackendState =
  connected :: bool
  latency_ms :: "int option"

record UIFlags =
  dark_mode :: bool
  sidebar_collapsed :: bool
  inspector_visible :: bool

text \<open>The five snapshots held by \<open>AppState\<close>.\<close>

record AppState =
  user :: UserState
  project :: ProjectState
  generation :: GenerationState
  backend :: BackendState
  ui_flags :: UIFlags

definition UserState_default :: UserState where
  "UserState_default =
     \<lparr>user_id = None, username = None, plan = ''free'', authenticated = False\<rparr>"

definition ProjectState_default :: ProjectState where
  "ProjectState_default =
     \<lparr>project_id = None, title = ''Untitled Project'', dirty = False, mode = ''simple''\<rparr>"

definition GenerationState_default :: GenerationState where
  "GenerationState_default = \<lparr>in_progress = False, progress = 0, last_error = None\<rparr>"

definition BackendState_default :: BackendState where
  "BackendState_default = \<lparr>connected = False, latency_ms = None\<rparr>"

definition UIFlags_default :: UIFlags where
  "UIFlags_default =
     \<lparr>dark_mode = True, sidebar_collapsed = False, inspector_visible = True\<rparr>"

definition AppState_init :: AppState where
  "AppState_init =
     \<lparr>user = UserState_default, project = ProjectState_default,
      generation = GenerationState_default, backend = BackendState_default,
      ui_flags = UIFlags_default\<rparr>"


section \<open>Signals and the process state\<close>

text \<open>
  Every Qt signal the modelled code emits, with its payload: the granular and generic
  signals of \<open>AppState\<close> and the signals of the \<open>UISignals\<close> bus.
\<close>

datatype snapshot = Snap_user UserState | Snap_generation GenerationState

datatype event =
    user_changed UserState
  | generation_changed GenerationState
  | state_changed string snapshot
  | generation_started
  | generation_progress real
  | generation_preview pyval
  | generation_finished pyval
  | generation_failed "string option"
  | generation_cancelled
  | backend_connected
  | backend_disconnected
  | backend_latency_updated int
  | backend_error string
  | user_logged_out

text \<open>An HTTP request as \<open>APIClient._request\<close> sends it.\<close>

record request =
  req_method :: string
  req_path :: string
  req_json :: pyval
  req_authorized :: bool

text \<open>
  The module-level singletons of the process in one record: the \<open>AppState\<close>, the signals
  emitted so far (oldest first), the connection flag of the gRPC client, the fields of the
  \<open>AuthBridge\<close> (\<open>refresh_task\<close> tells whether a task handle is stored) and the HTTP
  requests sent so far.
\<close>

record world =
  app_state :: AppState
  emitted :: "event list"
  grpc_connected :: bool
  access_token :: pyval
  refresh_token :: pyval
  refresh_task :: bool
  sent_requests :: "request list"

definition world_init :: world where
  "world_init =
     \<lparr>app_state = AppState_init, emitted = [], grpc_connected = False,
      access_token = PNone, refresh_token = PNone, refresh_task = False,
      sent_requests = []\<rparr>"

definition emit :: "event \<Rightarrow> world \<Rightarrow> world" where
  "emit ev w = w\<lparr>emitted := emitted w @ [ev]\<rparr>"


section \<open>State update API of AppState\<close>

text \<open>
  Keyword arguments are a list of field updates; as in the dict merge
  \<open>{**self._generation.__dict__, **kwargs}\<close> a later entry overrides an earlier one.
\<close>

datatype generation_kw =
    kw_in_progress bool
  | kw_progress real
  | kw_last_error "string option"

fun apply_generation_kw :: "generation_kw \<Rightarrow> GenerationState \<Rightarrow> GenerationState" where
  "apply_generation_kw (kw_in_progress b) g = g\<lparr>in_progress := b\<rparr>"
| "apply_generation_kw (kw_progress v) g = g\<lparr>progress := v\<rparr>"
| "apply_generation_kw (kw_last_error e) g = g\<lparr>last_error := e\<rparr>"

definition set_generation :: "generation_kw list \<Rightarrow> world \<Rightarrow> world" where
  "set_generation kwargs w =
     (let g = fold apply_generation_kw kwargs (generation (app_state w));
          w1 = w\<lparr>app_state := (app_state w)\<lparr>generation := g\<rparr>\<rparr>
      in emit (state_changed ''generation'' (Snap_generation g))
           (emit (generation_changed g) w1))"

datatype user_kw =
    kw_user_id "string option"
  | kw_username "string option"
  | kw_plan string
  | kw_authenticated bool

fun apply_user_kw :: "user_kw \<Rightarrow> UserState \<Rightarrow> UserState" where
  "apply_user_kw (kw_user_id i) u = u\<lparr>user_id := i\<rparr>"
| "apply_user_kw (kw_username n) u = u\<lparr>username := n\<rparr>"
| "apply_user_kw (kw_plan p) u = u\<lparr>plan := p\<rparr>"
| "apply_user_kw (kw_authenticated b) u = u\<lparr>authenticated := b\<rparr>"

definition set_user :: "user_kw list \<Rightarrow> world \<Rightarrow> world" where
  "set_user kwargs w =
     (let u = fold apply_user_kw kwargs (user (app_state w));
          w1 = w\<lparr>app_state := (app_state w)\<lparr>user := u\<rparr>\<rparr>
      in emit (state_changed ''user'' (Snap_user u)) (emit (user_changed u) w1))"

definition start_generation :: "world \<Rightarrow> world" where
  "start_generation w =
     set_generation [kw_in_progress True, kw_progress 0, kw_last_error None] w"

definition update_generation_progress :: "real \<Rightarrow> world \<Rightarrow> world" where
  "update_generation_progress v w = set_generation [kw_progress v] w"

definition finish_generation :: "world \<Rightarrow> world" where
  "finish_generation w = set_generation [kw_in_progress False, kw_progress 1] w"

definition fail_generation :: "string option \<Rightarrow> world \<Rightarrow> world" where
  "fail_generation err w =
     set_generation [kw_in_progress False, kw_last_error err] w"

text \<open>The generation snapshot, as \<open>get_app_state().generation\<close> reads it.\<close>

definition gen :: "world \<Rightarrow> GenerationState" where
  "gen w = generation (app_state w)"


section \<open>Realtime channel: WebSocketClient.\_handle\_message (bridge/ws\_client.py)\<close>

text \<open>
  A signal declared with a payload type refuses a payload of another type: \<open>emit\<close>
  raises \<open>TypeError\<close> and nothing is emitted.  \<open>generation_preview\<close> is declared
  with \<open>dict\<close>, \<open>generation_failed\<close> with \<open>str\<close>; the latter also takes
  \<open>None\<close>, which is then what \<open>fail_generation\<close> receives.
\<close>

fun emit_preview :: "pyval \<Rightarrow> world \<Rightarrow> exn + world" where
  "emit_preview (PDict items) w = Inr (emit (generation_preview (PDict items)) w)"
| "emit_preview _ w = Inl TypeError"

text \<open>
  The frame is given decoded: \<open>None\<close> when \<open>json.loads(raw)\<close> raises
  \<open>JSONDecodeError\<close> (the frame is dropped with a warning), \<open>Some data\<close> otherwise.
  An exception that leaves the handler is the \<open>Inl\<close> result; the state is then the one
  before the call, since every branch mutates last.
\<close>

definition handle_message ::
  "(string \<Rightarrow> real option) \<Rightarrow> pyval option \<Rightarrow> world \<Rightarrow> exn + world" where
  "handle_message parse decoded w =
     (case decoded of
        None \<Rightarrow> Inr w
      | Some data \<Rightarrow>
          (case py_get data ''type'' PNone of
             Inl e \<Rightarrow> Inl e
           | Inr msg_type \<Rightarrow>
               if msg_type = PStr ''progress'' then
                 (case py_get data ''value'' (PFloat 0) of
                    Inl e \<Rightarrow> Inl e
                  | Inr x \<Rightarrow>
                      (case py_float parse x of
                         Inl e \<Rightarrow> Inl e
                       | Inr v \<Rightarrow>
                           Inr (update_generation_progress v (emit (generation_progress v) w))))
               else if msg_type = PStr ''preview'' then
                 (case py_get data ''data'' (PDict []) of
                    Inl e \<Rightarrow> Inl e
                  | Inr d \<Rightarrow> emit_preview d w)
               else if msg_type = PStr ''status'' then Inr w
               else if msg_type = PStr ''error'' then
                 (case py_get data ''error'' (PStr ''Unknown error'') of
                    Inl e \<Rightarrow> Inl e
                  | Inr (PStr err) \<Rightarrow>
                      Inr (fail_generation (Some err) (emit (generation_failed (Some err)) w))
                  | Inr PNone \<Rightarrow>
                      Inr (fail_generation None (emit (generation_failed None) w))
                  | Inr _ \<Rightarrow> Inl TypeError)
               else if msg_type = PStr ''completed'' then
                 Inr (finish_generation (emit (generation_finished data) w))
               else Inr w))"

text \<open>The read loop applied to a run of frames, stopping at the first exception.\<close>

fun handle_messages ::
  "(string \<Rightarrow> real option) \<Rightarrow> pyval option list \<Rightarrow> world \<Rightarrow> exn + world" where
  "handle_messages parse [] w = Inr w"
| "handle_messages parse (f # fs) w =
     (case handle_message parse f w of
        Inl e \<Rightarrow> Inl e
      | Inr w1 \<Rightarrow> handle_messages parse fs w1)"


section \<open>Streaming job client: GRPCGenerationClient (bridge/grpc\_client.py)\<close>

text \<open>
  \<open>connect\<close>: nothing happens on a connected client; otherwise the outcome of waiting
  for \<open>channel_ready()\<close> is the parameter \<open>ready\<close> (\<open>None\<close>: the channel became
  ready, \<open>Some e\<close>: the wait raised \<open>e\<close>).
\<close>

definition connect :: "exn option \<Rightarrow> world \<Rightarrow> world \<times> (exn + unit)" where
  "connect ready w =
     (if grpc_connected w then (w, Inr ())
      else (case ready of
              Some e \<Rightarrow> (w, Inl e)
            | None \<Rightarrow> (emit backend_connected (w\<lparr>grpc_connected := True\<rparr>), Inr ())))"

definition handle_stream_message ::
  "(string \<Rightarrow> real option) \<Rightarrow> pyval \<Rightarrow> world \<Rightarrow> exn + world" where
  "handle_stream_message parse message w =
     (case py_get message ''type'' PNone of
        Inl e \<Rightarrow> Inl e
      | Inr msg_type \<Rightarrow>
          if msg_type = PStr ''progress'' then
            (case py_get message ''value'' (PFloat 0) of
               Inl e \<Rightarrow> Inl e
             | Inr x \<Rightarrow>
                 (case py_float parse x of
                    Inl e \<Rightarrow> Inl e
                  | Inr v \<Rightarrow>
                      Inr (update_generation_progress v (emit (generation_progress v) w))))
          else if msg_type = PStr ''preview'' then
            (case py_get message ''data'' (PDict []) of
               Inl e \<Rightarrow> Inl e
             | Inr d \<Rightarrow> emit_preview d w)
          else if msg_type = PStr ''error'' then
            (case py_get message ''error'' PNone of
               Inl e \<Rightarrow> Inl e
             | Inr err \<Rightarrow> Inl (RuntimeError err))
          else Inr w)"

text \<open>The final metadata \<open>_run_generation_stream\<close> returns.\<close>

definition final_result :: pyval where
  "final_result =
     PDict [(''status'', PStr ''completed''), (''tracks'', PList []), (''metadata'', PDict [])]"

text \<open>
  The stream is what each wait for its next element produces, in order: \<open>Inr m\<close> when
  message \<open>m\<close> arrives, \<open>Inl e\<close> when the wait raises \<open>e\<close> (\<open>CancelledError\<close>
  when the task is cancelled while suspended there); the end of the list is the end of the
  stream.  The state is returned in every case: what was stored before an exception stays
  stored.
\<close>

fun run_generation_stream ::
  "(string \<Rightarrow> real option) \<Rightarrow> (exn + pyval) list \<Rightarrow> world \<Rightarrow> world \<times> (exn + pyval)" where
  "run_generation_stream parse [] w = (w, Inr final_result)"
| "run_generation_stream parse (Inl e # items) w = (w, Inl e)"
| "run_generation_stream parse (Inr message # items) w =
     (case handle_stream_message parse message w of
        Inl e \<Rightarrow> (w, Inl e)
      | Inr w1 \<Rightarrow> run_generation_stream parse items w1)"

text \<open>
  \<open>generate\<close> up to its first suspension inside the stream: the connection, the
  \<open>generation_started\<close> signal and \<open>start_generation\<close>.  On a connected client this
  part runs without suspending.
\<close>

definition generate_enter :: "exn option \<Rightarrow> world \<Rightarrow> world \<times> (exn + unit)" where
  "generate_enter ready w =
     (case connect ready w of
        (w1, Inl e) \<Rightarrow> (w1, Inl e)
      | (w1, Inr u) \<Rightarrow> (start_generation (emit generation_started w1), Inr ()))"

text \<open>The three exits of the \<open>try\<close> statement; \<open>str_of\<close> is the builtin \<open>str\<close> on exceptions.\<close>

fun generate_exit :: "(exn \<Rightarrow> string) \<Rightarrow> world \<times> (exn + pyval) \<Rightarrow> world \<times> (exn + pyval)" where
  "generate_exit str_of (w, Inr result) =
     (finish_generation (emit (generation_finished result) w), Inr result)"
| "generate_exit str_of (w, Inl CancelledError) =
     (emit generation_cancelled w, Inl CancelledError)"
| "generate_exit str_of (w, Inl e) =
     (fail_generation (Some (str_of e)) (emit (generation_failed (Some (str_of e))) w), Inl e)"

definition generate ::
  "(exn \<Rightarrow> string) \<Rightarrow> (string \<Rightarrow> real option) \<Rightarrow> exn option \<Rightarrow> (exn + pyval) list
     \<Rightarrow> world \<Rightarrow> world \<times> (exn + pyval)" where
  "generate str_of parse ready items w =
     (case generate_enter ready w of
        (w1, Inl e) \<Rightarrow> (w1, Inl e)
      | (w1, Inr u) \<Rightarrow> generate_exit str_of (run_generation_stream parse items w1))"


section \<open>Credential refresh: AuthBridge (bridge/auth\_bridge.py, bridge/api\_client.py)\<close>

text \<open>
  What the HTTP client does with one request: a response with status ok and a body that
  decodes, a response whose status makes \<open>raise_for_status\<close> raise (with the text of
  the exception), a response whose body does not decode, a transport failure
  (\<open>httpx.RequestError\<close>), or any other exception out of the call.  The first three
  carry the measured latency in milliseconds.
\<close>

datatype http_outcome =
    Http_json int pyval
  | Http_status_error int string
  | Http_bad_body int
  | Http_request_error string
  | Http_raises exn

definition api_request ::
  "string \<Rightarrow> string \<Rightarrow> pyval \<Rightarrow> http_outcome \<Rightarrow> world \<Rightarrow> world \<times> (exn + pyval)" where
  "api_request method path body out w =
     (let w1 = w\<lparr>sent_requests := sent_requests w @
                  [\<lparr>req_method = method, req_path = path, req_json = body,
                    req_authorized = authenticated (user (app_state w))\<rparr>]\<rparr>
      in case out of
           Http_json ms v \<Rightarrow> (emit (backend_latency_updated ms) w1, Inr v)
         | Http_status_error ms txt \<Rightarrow>
             (emit (backend_error txt) (emit (backend_latency_updated ms) w1),
              Inl (HTTPStatusError txt))
         | Http_bad_body ms \<Rightarrow> (emit (backend_latency_updated ms) w1, Inl ValueError)
         | Http_request_error txt \<Rightarrow> (emit backend_disconnected w1, Inl (RequestError txt))
         | Http_raises e \<Rightarrow> (w1, Inl e))"

definition clear_auth_state :: "world \<Rightarrow> world" where
  "clear_auth_state w =
     set_user [kw_authenticated False, kw_username None, kw_plan ''free'']
       (w\<lparr>access_token := PNone, refresh_token := PNone, refresh_task := False\<rparr>)"

text \<open>The body of the \<open>except Exception\<close> clause of the refresh loop.\<close>

definition on_refresh_failure :: "world \<Rightarrow> world" where
  "on_refresh_failure w = clear_auth_state (emit user_logged_out w)"

text \<open>
  The exchange inside the loop: the request to \<open>/auth/refresh\<close> carrying the refresh
  token, then \<open>response.get("access_token")\<close>.
\<close>

definition exchange :: "http_outcome \<Rightarrow> world \<Rightarrow> world \<times> (exn + pyval)" where
  "exchange out w =
     (case api_request ''POST'' ''/auth/refresh''
             (PDict [(''refresh_token'', refresh_token w)]) out w of
        (w1, Inl e) \<Rightarrow> (w1, Inl e)
      | (w1, Inr response) \<Rightarrow> (w1, py_get response ''access_token'' PNone))"

text \<open>
  One entry per iteration of \<open>while True\<close>: the sleep is cancelled, or it ends and the
  exchange, if it is made, has the given outcome.  \<open>Suspended\<close>: the schedule is used
  up and the loop is asleep; \<open>Returned\<close>: the coroutine has returned.
\<close>

datatype tick = Sleep_cancelled | Woke http_outcome

datatype loop_status = Suspended | Returned

fun refresh_loop :: "tick list \<Rightarrow> world \<Rightarrow> world \<times> loop_status" where
  "refresh_loop [] w = (w, Suspended)"
| "refresh_loop (Sleep_cancelled # ticks) w = (w, Returned)"
| "refresh_loop (Woke out # ticks) w =
     (if \<not> py_truthy (refresh_token w) then (w, Returned)
      else
        (case exchange out w of
           (w1, Inl e) \<Rightarrow>
             if e = CancelledError then (w1, Returned)
             else (on_refresh_failure w1, Returned)
         | (w1, Inr token) \<Rightarrow> refresh_loop ticks (w1\<lparr>access_token := token\<rparr>)))"


section \<open>Sequences of store mutations\<close>

text \<open>The four generation mutations as data, to speak about every order of calls.\<close>

datatype store_op =
    Start_generation
  | Update_progress real
  | Finish_generation
  | Fail_generation string

fun apply_op :: "store_op \<Rightarrow> world \<Rightarrow> world" where
  "apply_op Start_generation w = start_generation w"
| "apply_op (Update_progress v) w = update_generation_progress v w"
| "apply_op Finish_generation w = finish_generation w"
| "apply_op (Fail_generation err) w = fail_generation (Some err) w"


text \<open>Number of \<open>user_logged_out\<close> signals in a log.\<close>

definition logouts :: "event list \<Rightarrow> nat" where
  "logouts evs = length (filter (\<lambda>ev. ev = user_logged_out) evs)"


section \<open>Concrete inputs\<close>

text \<open>A text parser that accepts no text, and a rendering of exceptions, for concrete runs.\<close>

definition no_text :: "string \<Rightarrow> real option" where
  "no_text s = None"

definition plain_str :: "exn \<Rightarrow> string" where
  "plain_str e = ''error''"

text \<open>
  The frames \<open>{"type": "progress", "value": v}\<close>,
  \<open>{"type": "completed", "metadata": {}}\<close> and \<open>{"type": "error", "error": err}\<close>.
\<close>

definition progress_frame :: "real \<Rightarrow> pyval" where
  "progress_frame v = PDict [(''type'', PStr ''progress''), (''value'', PFloat v)]"

definition completed_frame :: pyval where
  "completed_frame = PDict [(''type'', PStr ''completed''), (''metadata'', PDict [])]"

definition error_frame :: "string \<Rightarrow> pyval" where
  "error_frame err = PDict [(''type'', PStr ''error''), (''error'', PStr err)]"

text \<open>A job in progress at 70 percent.\<close>

definition running_world :: world where
  "running_world = update_generation_progress (7/10) (start_generation world_init)"

text \<open>
  A first \<open>generate\<close> call on the fresh process: just entered, and suspended in its
  stream after a progress message of 50 percent.
\<close>

definition entered_world :: world where
  "entered_world = fst (generate_enter None world_init)"

definition inflight_world :: world where
  "inflight_world =
     fst (run_generation_stream no_text [Inr (progress_frame (1/2))] entered_world)"

text \<open>A \<open>generate\<close> call cancelled after a progress message of 30 percent.\<close>

definition cancelled_run :: "world \<times> (exn + pyval)" where
  "cancelled_run =
     generate plain_str no_text None [Inr (progress_frame (3/10)), Inl CancelledError] world_init"

text \<open>
  A logged-in bridge, the same after one successful refresh, and after the next exchange
  was answered with status 401.
\<close>

definition logged_in_world :: world where
  "logged_in_world =
     world_init\<lparr>access_token := PStr ''a0'', refresh_token := PStr ''r0'', refresh_task := True\<rparr>"

definition refreshed_world :: world where
  "refreshed_world =
     fst (refresh_loop [Woke (Http_json 12 (PDict [(''access_token'', PStr ''a1'')]))]
            logged_in_world)"

definition rejected_world :: world where
  "rejected_world = fst (exchange (Http_status_error 30 ''401'') refreshed_world)"


section \<open>The generation snapshot after each mutation\<close>

lemma gen_emit: "gen (emit ev w) = gen w"
  by (simp add: gen_def emit_def)

lemma gen_set_generation:
  "gen (set_generation kwargs w) = fold apply_generation_kw kwargs (gen w)"
  by (simp add: gen_def set_generation_def emit_def Let_def)

lemma gen_start_generation:
  "gen (start_generation w) = \<lparr>in_progress = True, progress = 0, last_error = None\<rparr>"
  by (simp add: start_generation_def gen_set_generation)

lemma gen_update_generation_progress:
  "gen (update_generation_progress v w) = (gen w)\<lparr>progress := v\<rparr>"
  by (simp add: update_generation_progress_def gen_set_generation)

lemma gen_finish_generation:
  "gen (finish_generation w) = (gen w)\<lparr>in_progress := False, progress := 1\<rparr>"
  by (simp add: finish_generation_def gen_set_generation)

lemma gen_fail_generation:
  "gen (fail_generation err w) = (gen w)\<lparr>in_progress := False, last_error := err\<rparr>"
  by (simp add: fail_generation_def gen_set_generation)

lemma gen_world_init:
  "gen world_init = \<lparr>in_progress = False, progress = 0, last_error = None\<rparr>"
  by (simp add: gen_def world_init_def AppState_init_def GenerationState_default_def)

lemma gen_running_world:
  "gen running_world = \<lparr>in_progress = True, progress = 7/10, last_error = None\<rparr>"
  by (simp add: running_world_def gen_update_generation_progress gen_start_generation)

lemma app_state_set_generation:
  "app_state (set_generation kwargs w) =
     (app_state w)\<lparr>generation := fold apply_generation_kw kwargs (generation (app_state w))\<rparr>"
  by (simp add: set_generation_def emit_def Let_def)

lemma grpc_connected_emit: "grpc_connected (emit ev w) = grpc_connected w"
  by (simp add: emit_def)

lemma grpc_connected_set_generation:
  "grpc_connected (set_generation kwargs w) = grpc_connected w"
  by (simp add: set_generation_def emit_def Let_def)


section \<open>Session State Store\<close>

text \<open>
  C1 (as amended).  \<open>update_generation_progress(v)\<close> has no guard on the state of the
  job: whatever \<open>in_progress\<close> is, the stored progress becomes \<open>v\<close>, and
  \<open>in_progress\<close> and \<open>last_error\<close> stay as they were.
\<close>

theorem update_generation_progress_unguarded:
  "gen (update_generation_progress v w) = (gen w)\<lparr>progress := v\<rparr>"
  by (simp add: update_generation_progress_def gen_set_generation)

text \<open>
  C1 as stated fails: on the initial state, where no job is in progress and the progress
  is 0.0, \<open>update_generation_progress(0.5)\<close> changes the stored progress.
\<close>

theorem update_generation_progress_idle_counterexample:
  "\<not> in_progress (gen world_init) \<and>
   progress (gen (update_generation_progress (1/2) world_init)) \<noteq> progress (gen world_init)"
  by (simp add: gen_update_generation_progress gen_world_init)

text \<open>
  C4.  \<open>finish_generation\<close> is idempotent on the snapshot: applying it twice leaves the
  same \<open>AppState\<close> as applying it once, with \<open>in_progress\<close> false and progress 1.0.
\<close>

theorem finish_generation_idempotent:
  "app_state (finish_generation (finish_generation w)) = app_state (finish_generation w) \<and>
   in_progress (gen (finish_generation w)) = False \<and>
   progress (gen (finish_generation w)) = 1"
  by (simp add: finish_generation_def app_state_set_generation gen_def)

text \<open>
  C9.  Each of the four generation mutations (and \<open>set_generation\<close> with any keyword
  arguments) replaces the generation snapshot only: the user, project, backend and
  UI-flag snapshots are the ones from before the call.
\<close>

theorem generation_mutations_frame:
  "user (app_state (apply_op op w)) = user (app_state w) \<and>
   project (app_state (apply_op op w)) = project (app_state w) \<and>
   backend (app_state (apply_op op w)) = backend (app_state w) \<and>
   ui_flags (app_state (apply_op op w)) = ui_flags (app_state w) \<and>
   app_state (set_generation kwargs w) =
     (app_state w)\<lparr>generation := generation (app_state (set_generation kwargs w))\<rparr>"
  by (cases op)
     (simp_all add: start_generation_def update_generation_progress_def
        finish_generation_def fail_generation_def app_state_set_generation)






section \<open>Realtime channel\<close>

lemma handle_message_progress_frame:
  "handle_message parse (Some (progress_frame v)) w =
     Inr (update_generation_progress v (emit (generation_progress v) w))"
  by (simp add: handle_message_def progress_frame_def)

lemma handle_message_completed_frame:
  "handle_message parse (Some completed_frame) w =
     Inr (finish_generation (emit (generation_finished completed_frame) w))"
  by (simp add: handle_message_def completed_frame_def)

text \<open>
  C6.  From every state, the frame \<open>{"type": "progress", "value": 0.4}\<close> followed by
  the frame \<open>{"type": "completed", "metadata": {}}\<close> is handled without an exception
  and leaves \<open>in_progress\<close> false and progress 1.0.
\<close>

theorem progress_then_completed:
  "\<exists>w'. handle_messages parse [Some (progress_frame (4/10)), Some completed_frame] w = Inr w' \<and>
        in_progress (gen w') = False \<and> progress (gen w') = 1"
  by (simp add: handle_message_progress_frame handle_message_completed_frame
        gen_finish_generation)

text \<open>
  C10.  A frame of type \<open>progress\<close> without a \<open>value\<close> field is not dropped: it is
  dispatched as progress 0.0, so the stored progress becomes 0.0 (and \<open>in_progress\<close>
  stays as it was).
\<close>

theorem progress_without_value:
  "map_of d ''type'' = Some (PStr ''progress'') \<Longrightarrow> map_of d ''value'' = None \<Longrightarrow>
   handle_message parse (Some (PDict d)) w =
     Inr (update_generation_progress 0 (emit (generation_progress 0) w)) \<and>
   progress (gen (update_generation_progress 0 (emit (generation_progress 0) w))) = 0 \<and>
   in_progress (gen (update_generation_progress 0 (emit (generation_progress 0) w))) =
     in_progress (gen w)"
  by (simp add: handle_message_def gen_update_generation_progress gen_emit)

theorem progress_without_value_witness:
  "map_of [(''type'', PStr ''progress'')] ''type'' = Some (PStr ''progress'') \<and>
   map_of [(''type'', PStr ''progress'')] ''value'' = None \<and>
   in_progress (gen running_world) \<and> progress (gen running_world) = 7/10 \<and>
   handle_message no_text (Some (PDict [(''type'', PStr ''progress'')])) running_world =
     Inr (update_generation_progress 0 (emit (generation_progress 0) running_world)) \<and>
   progress (gen (update_generation_progress 0 (emit (generation_progress 0) running_world))) = 0"
  using progress_without_value [of "[(''type'', PStr ''progress'')]" no_text running_world]
  by (simp add: gen_running_world)


section \<open>Streaming job client\<close>

lemma generate_enter_ready:
  "generate_enter None w =
     (start_generation (emit generation_started
        (if grpc_connected w then w else emit backend_connected (w\<lparr>grpc_connected := True\<rparr>))),
      Inr ())"
  by (simp add: generate_enter_def connect_def)

lemma handle_stream_message_progress_frame:
  "handle_stream_message parse (progress_frame v) w =
     Inr (update_generation_progress v (emit (generation_progress v) w))"
  by (simp add: handle_stream_message_def progress_frame_def)

lemma gen_entered_world:
  "gen entered_world = \<lparr>in_progress = True, progress = 0, last_error = None\<rparr>"
  by (simp add: entered_world_def generate_enter_ready gen_start_generation)

lemma generate_enter_world_init: "generate_enter None world_init = (entered_world, Inr ())"
  by (simp add: entered_world_def generate_enter_ready)

lemma gen_inflight_world:
  "gen inflight_world = \<lparr>in_progress = True, progress = 1/2, last_error = None\<rparr>"
  by (simp add: inflight_world_def handle_stream_message_progress_frame
        gen_update_generation_progress gen_emit gen_entered_world)

lemma grpc_connected_inflight_world: "grpc_connected inflight_world"
  by (simp add: inflight_world_def entered_world_def generate_enter_ready
        handle_stream_message_progress_frame update_generation_progress_def
        start_generation_def grpc_connected_set_generation grpc_connected_emit)

text \<open>
  C2 (as amended).  \<open>generate\<close> has no busy check.  On a connected client a call made
  in any state, also while an earlier job is in flight, is accepted without an error up to
  its first suspension: it emits \<open>generation_started\<close> and runs \<open>start_generation\<close>,
  which overwrites the shared generation snapshot with \<open>in_progress\<close> true, progress
  0.0 and no error.
\<close>

theorem generate_second_call_accepted:
  "grpc_connected w \<Longrightarrow>
   generate_enter ready w = (start_generation (emit generation_started w), Inr ()) \<and>
   gen (fst (generate_enter ready w)) =
     \<lparr>in_progress = True, progress = 0, last_error = None\<rparr>"
  by (simp add: generate_enter_def connect_def gen_start_generation)

theorem generate_second_call_accepted_witness:
  "grpc_connected inflight_world \<and>
   gen inflight_world = \<lparr>in_progress = True, progress = 1/2, last_error = None\<rparr> \<and>
   snd (generate_enter None inflight_world) = Inr () \<and>
   gen (fst (generate_enter None inflight_world)) =
     \<lparr>in_progress = True, progress = 0, last_error = None\<rparr>"
proof -
  have c: "grpc_connected inflight_world"
    by (rule grpc_connected_inflight_world)
  from generate_second_call_accepted [OF c, of None] show ?thesis
    by (simp add: c gen_inflight_world gen_start_generation)
qed

text \<open>
  C2 as stated fails: with a first job in flight at 50 percent, a second \<open>generate\<close>
  call enters without an exception, resets the stored progress of the first job to 0.0,
  and, given an empty stream, returns the final result.
\<close>

theorem generate_busy_counterexample:
  "in_progress (gen inflight_world) \<and> progress (gen inflight_world) = 1/2 \<and>
   snd (generate_enter None inflight_world) = Inr () \<and>
   progress (gen (fst (generate_enter None inflight_world))) = 0 \<and>
   snd (generate plain_str no_text None [] inflight_world) = Inr final_result"
  by (simp add: gen_inflight_world generate_enter_ready gen_start_generation generate_def)

lemma last_error_handle_stream_message:
  "handle_stream_message parse m w = Inr w1 \<Longrightarrow>
   last_error (gen w1) = last_error (gen w) \<and> in_progress (gen w1) = in_progress (gen w)"
  by (cases m) (auto simp: handle_stream_message_def gen_update_generation_progress gen_emit
        split: if_splits sum.splits option.splits pyval.splits elim: emit_preview.elims)

lemma last_error_run_generation_stream:
  "run_generation_stream parse items w = (w1, r) \<Longrightarrow>
   last_error (gen w1) = last_error (gen w) \<and> in_progress (gen w1) = in_progress (gen w)"
proof (induction parse items w rule: run_generation_stream.induct)
  case (1 parse w)
  then show ?case by simp
next
  case (2 parse e items w)
  then show ?case by simp
next
  case (3 parse message items w)
  show ?case
  proof (cases "handle_stream_message parse message w")
    case (Inl e)
    with 3 show ?thesis by simp
  next
    case (Inr w2)
    with 3 last_error_handle_stream_message [OF Inr] show ?thesis by simp
  qed
qed

lemma run_generation_stream_raise_append:
  "run_generation_stream parse items w = (w1, Inl e) \<Longrightarrow>
   run_generation_stream parse (items @ later) w = (w1, Inl e)"
proof (induction parse items w rule: run_generation_stream.induct)
  case (1 parse w)
  then show ?case by simp
next
  case (2 parse e items w)
  then show ?case by simp
next
  case (3 parse message items w)
  then show ?case by (cases "handle_stream_message parse message w") simp_all
qed

lemma run_cancelled_stream:
  "run_generation_stream no_text [Inr (progress_frame (3/10)), Inl CancelledError] entered_world =
     (update_generation_progress (3/10) (emit (generation_progress (3/10)) entered_world),
      Inl CancelledError)"
  by (simp add: handle_stream_message_progress_frame)

lemma cancelled_run_eq:
  "cancelled_run =
     (emit generation_cancelled
        (update_generation_progress (3/10) (emit (generation_progress (3/10)) entered_world)),
      Inl CancelledError)"
  by (simp add: cancelled_run_def generate_def generate_enter_world_init
        handle_stream_message_progress_frame)

lemma gen_cancelled_run:
  "gen (fst cancelled_run) = \<lparr>in_progress = True, progress = 3/10, last_error = None\<rparr>"
  by (simp add: cancelled_run_eq gen_emit gen_update_generation_progress gen_entered_world)

text \<open>
  C3 (as amended).  When the task is cancelled while \<open>generate\<close> waits on its stream,
  nothing after that point of the stream is consumed, the only signal emitted is
  \<open>generation_cancelled\<close>, the caller receives \<open>CancelledError\<close> and not a generic
  error, and no error text is stored.  (The code has no Cancelled state to move to.)
\<close>

theorem generate_cancelled:
  assumes enter: "generate_enter ready w = (w1, Inr ())"
      and run: "run_generation_stream parse items w1 = (w2, Inl CancelledError)"
  shows "generate str_of parse ready (items @ later) w =
           (emit generation_cancelled w2, Inl CancelledError) \<and>
         emitted (emit generation_cancelled w2) = emitted w2 @ [generation_cancelled] \<and>
         last_error (gen (emit generation_cancelled w2)) = None"
proof -
  have "w1 = start_generation (emit generation_started (fst (connect ready w)))"
    using enter by (auto simp: generate_enter_def split: prod.splits sum.splits)
  then have "last_error (gen w1) = None"
    by (simp add: gen_start_generation)
  with last_error_run_generation_stream [OF run] have "last_error (gen w2) = None"
    by simp
  moreover have "generate str_of parse ready (items @ later) w =
           (emit generation_cancelled w2, Inl CancelledError)"
    using enter run_generation_stream_raise_append [OF run, of later]
    by (simp add: generate_def)
  ultimately show ?thesis
    by (simp add: gen_emit) (simp add: emit_def)
qed

theorem generate_cancelled_witness:
  "generate_enter None world_init = (entered_world, Inr ()) \<and>
   run_generation_stream no_text [Inr (progress_frame (3/10)), Inl CancelledError] entered_world =
     (update_generation_progress (3/10) (emit (generation_progress (3/10)) entered_world),
      Inl CancelledError) \<and>
   snd (generate plain_str no_text None
          ([Inr (progress_frame (3/10)), Inl CancelledError] @ [Inr completed_frame])
          world_init) = Inl CancelledError \<and>
   last_error (gen (fst (generate plain_str no_text None
          ([Inr (progress_frame (3/10)), Inl CancelledError] @ [Inr completed_frame])
          world_init))) = None"
  using generate_cancelled [OF generate_enter_world_init run_cancelled_stream,
          of plain_str "[Inr completed_frame]"]
  by (simp add: generate_enter_world_init handle_stream_message_progress_frame)

text \<open>
  C3 as stated fails: after a call is cancelled at 30 percent the stored snapshot is the
  one from before the cancellation, with \<open>in_progress\<close> still true; the store has
  made no transition.
\<close>

theorem generate_cancelled_counterexample:
  "snd cancelled_run = Inl CancelledError \<and>
   gen (fst cancelled_run) = \<lparr>in_progress = True, progress = 3/10, last_error = None\<rparr>"
  by (simp add: gen_cancelled_run) (simp add: cancelled_run_eq)

text \<open>
  C5 (as amended).  The realtime handler keeps no job token and checks no state: a
  \<open>completed\<close> frame is always applied with \<open>finish_generation\<close> (\<open>in_progress\<close>
  false, progress 1.0), and an \<open>error\<close> frame with a string text is always applied with
  \<open>fail_generation\<close> (\<open>in_progress\<close> false, \<open>last_error\<close> the text), also when
  the frame arrives after a cancellation.
\<close>

theorem late_frames_applied:
  "(map_of d ''type'' = Some (PStr ''completed'') \<longrightarrow>
      handle_message parse (Some (PDict d)) w =
        Inr (finish_generation (emit (generation_finished (PDict d)) w)) \<and>
      gen (finish_generation (emit (generation_finished (PDict d)) w)) =
        (gen w)\<lparr>in_progress := False, progress := 1\<rparr>) \<and>
   (map_of d ''type'' = Some (PStr ''error'') \<and> map_of d ''error'' = Some (PStr err) \<longrightarrow>
      handle_message parse (Some (PDict d)) w =
        Inr (fail_generation (Some err) (emit (generation_failed (Some err)) w)) \<and>
      gen (fail_generation (Some err) (emit (generation_failed (Some err)) w)) =
        (gen w)\<lparr>in_progress := False, last_error := Some err\<rparr>)"
  by (simp add: handle_message_def gen_finish_generation gen_fail_generation gen_emit)

theorem late_frames_applied_witness:
  "map_of [(''type'', PStr ''completed''), (''metadata'', PDict [])] ''type'' =
     Some (PStr ''completed'') \<and>
   handle_message no_text (Some completed_frame) (fst cancelled_run) =
     Inr (finish_generation (emit (generation_finished completed_frame) (fst cancelled_run))) \<and>
   map_of [(''type'', PStr ''error''), (''error'', PStr ''late'')] ''type'' = Some (PStr ''error'') \<and>
   map_of [(''type'', PStr ''error''), (''error'', PStr ''late'')] ''error'' = Some (PStr ''late'') \<and>
   handle_message no_text (Some (error_frame ''late'')) (fst cancelled_run) =
     Inr (fail_generation (Some ''late'')
            (emit (generation_failed (Some ''late'')) (fst cancelled_run)))"
  using late_frames_applied [where d = "[(''type'', PStr ''completed''), (''metadata'', PDict [])]"
          and parse = no_text and w = "fst cancelled_run" and err = "''late''"]
        late_frames_applied [where d = "[(''type'', PStr ''error''), (''error'', PStr ''late'')]"
          and parse = no_text and w = "fst cancelled_run" and err = "''late''"]
  by (simp add: completed_frame_def error_frame_def)

text \<open>
  C5 as stated fails: after the call cancelled at 30 percent, a \<open>completed\<close> frame
  handled by the realtime channel is not discarded; it changes the snapshot to
  \<open>in_progress\<close> false and progress 1.0.
\<close>

theorem completed_after_cancel_counterexample:
  "snd cancelled_run = Inl CancelledError \<and>
   gen (fst cancelled_run) = \<lparr>in_progress = True, progress = 3/10, last_error = None\<rparr> \<and>
   handle_message no_text (Some completed_frame) (fst cancelled_run) =
     Inr (finish_generation (emit (generation_finished completed_frame) (fst cancelled_run))) \<and>
   gen (finish_generation (emit (generation_finished completed_frame) (fst cancelled_run))) =
     \<lparr>in_progress = False, progress = 1, last_error = None\<rparr>"
  by (simp add: gen_cancelled_run handle_message_completed_frame gen_finish_generation gen_emit)
     (simp add: cancelled_run_eq)


section \<open>Credential refresh\<close>

lemma exchange_effects:
  assumes "exchange out w = (w1, r)"
  shows "sent_requests w1 = sent_requests w @
           [\<lparr>req_method = ''POST'', req_path = ''/auth/refresh'',
             req_json = PDict [(''refresh_token'', refresh_token w)],
             req_authorized = authenticated (user (app_state w))\<rparr>]"
    and "logouts (emitted w1) = logouts (emitted w)"
    and "refresh_token w1 = refresh_token w"
  using assms
  by (auto simp: exchange_def api_request_def emit_def logouts_def Let_def
      split: http_outcome.splits sum.splits prod.splits)

lemma on_refresh_failure_effects:
  "access_token (on_refresh_failure w) = PNone"
  "refresh_token (on_refresh_failure w) = PNone"
  "refresh_task (on_refresh_failure w) = False"
  "sent_requests (on_refresh_failure w) = sent_requests w"
  "logouts (emitted (on_refresh_failure w)) = logouts (emitted w) + 1"
  "authenticated (user (app_state (on_refresh_failure w))) = False"
  by (simp_all add: on_refresh_failure_def clear_auth_state_def set_user_def emit_def
        logouts_def Let_def)

lemma refresh_loop_append:
  "refresh_loop (pre @ ticks) w =
     (case refresh_loop pre w of
        (w1, Suspended) \<Rightarrow> refresh_loop ticks w1
      | (w1, Returned) \<Rightarrow> (w1, Returned))"
proof (induction pre w rule: refresh_loop.induct)
  case (1 w)
  then show ?case by simp
next
  case (2 ticks' w)
  then show ?case by simp
next
  case (3 out ticks' w)
  then show ?case
    by (auto split: prod.splits sum.splits loop_status.splits)
qed

lemma refresh_loop_suspended_logouts:
  "refresh_loop pre w = (w1, Suspended) \<Longrightarrow> logouts (emitted w1) = logouts (emitted w)"
proof (induction pre w rule: refresh_loop.induct)
  case (1 w)
  then show ?case by simp
next
  case (2 ticks' w)
  then show ?case by simp
next
  case (3 out ticks' w)
  show ?case
  proof (cases "exchange out w")
    case (Pair w2 r)
    show ?thesis
    proof (cases r)
      case (Inl e)
      with "3.prems" Pair show ?thesis by (simp split: if_splits)
    next
      case (Inr token)
      with "3.prems" Pair
      have run: "refresh_loop ticks' (w2\<lparr>access_token := token\<rparr>) = (w1, Suspended)"
        and t: "py_truthy (refresh_token w)"
        by (simp_all split: if_splits)
      from "3.IH" [OF _ Pair [symmetric] Inr run] t
      have "logouts (emitted w1) = logouts (emitted (w2\<lparr>access_token := token\<rparr>))"
        by simp
      with exchange_effects(2) [OF Pair] show ?thesis by simp
    qed
  qed
qed

lemma refresh_loop_logged_in_world:
  "refresh_loop [Woke (Http_json 12 (PDict [(''access_token'', PStr ''a1'')]))] logged_in_world =
     (refreshed_world, Suspended)"
  by (simp add: refreshed_world_def logged_in_world_def exchange_def api_request_def Let_def)

lemma refresh_token_refreshed_world: "refresh_token refreshed_world = PStr ''r0''"
  by (simp add: refreshed_world_def logged_in_world_def exchange_def api_request_def Let_def
        emit_def)

lemma exchange_refreshed_world:
  "exchange (Http_status_error 30 ''401'') refreshed_world =
     (rejected_world, Inl (HTTPStatusError ''401''))"
  by (simp add: rejected_world_def exchange_def api_request_def Let_def)

lemma logouts_logged_in_world: "logouts (emitted logged_in_world) = 0"
  by (simp add: logged_in_world_def world_init_def logouts_def)

text \<open>
  C8.  Let the refresh loop be asleep after any number of iterations, with a refresh
  token stored, and let the next exchange raise anything but a cancellation.  Then the
  loop returns, whatever the rest of the schedule holds: no later exchange is made (the
  failing request is the last one sent), exactly one \<open>user_logged_out\<close> signal is
  added to those emitted before the loop started, and both tokens are cleared.
\<close>

theorem refresh_failure_forces_logout:
  assumes pre: "refresh_loop pre w = (w1, Suspended)"
      and tok: "py_truthy (refresh_token w1)"
      and fails: "exchange out w1 = (w2, Inl e)"
      and exc: "e \<noteq> CancelledError"
  shows "refresh_loop (pre @ Woke out # later) w = (on_refresh_failure w2, Returned) \<and>
         logouts (emitted (on_refresh_failure w2)) = logouts (emitted w) + 1 \<and>
         access_token (on_refresh_failure w2) = PNone \<and>
         refresh_token (on_refresh_failure w2) = PNone \<and>
         length (sent_requests (on_refresh_failure w2)) = length (sent_requests w1) + 1"
proof -
  have "refresh_loop (Woke out # later) w1 = (on_refresh_failure w2, Returned)"
    using tok fails exc by simp
  then have "refresh_loop (pre @ Woke out # later) w = (on_refresh_failure w2, Returned)"
    using pre by (simp add: refresh_loop_append)
  moreover have "logouts (emitted w2) = logouts (emitted w)"
    using exchange_effects(2) [OF fails] refresh_loop_suspended_logouts [OF pre] by simp
  moreover have "length (sent_requests w2) = length (sent_requests w1) + 1"
    using exchange_effects(1) [OF fails] by simp
  ultimately show ?thesis
    by (simp add: on_refresh_failure_effects)
qed

theorem refresh_failure_forces_logout_witness:
  "refresh_loop [Woke (Http_json 12 (PDict [(''access_token'', PStr ''a1'')]))] logged_in_world =
     (refreshed_world, Suspended) \<and>
   py_truthy (refresh_token refreshed_world) \<and>
   exchange (Http_status_error 30 ''401'') refreshed_world =
     (rejected_world, Inl (HTTPStatusError ''401'')) \<and>
   HTTPStatusError ''401'' \<noteq> CancelledError \<and>
   refresh_loop ([Woke (Http_json 12 (PDict [(''access_token'', PStr ''a1'')]))] @
       Woke (Http_status_error 30 ''401'') #
       [Woke (Http_json 15 (PDict [(''access_token'', PStr ''a2'')]))]) logged_in_world =
     (on_refresh_failure rejected_world, Returned) \<and>
   logouts (emitted (on_refresh_failure rejected_world)) = 1 \<and>
   access_token (on_refresh_failure rejected_world) = PNone \<and>
   refresh_token (on_refresh_failure rejected_world) = PNone"
proof -
  have tok: "py_truthy (refresh_token refreshed_world)"
    by (simp add: refresh_token_refreshed_world)
  have exc: "HTTPStatusError ''401'' \<noteq> CancelledError"
    by simp
  from refresh_failure_forces_logout
         [OF refresh_loop_logged_in_world tok exchange_refreshed_world exc,
          of "[Woke (Http_json 15 (PDict [(''access_token'', PStr ''a2'')]))]"]
  show ?thesis
    by (simp del: refresh_loop.simps
          add: refresh_loop_logged_in_world tok exchange_refreshed_world
            logouts_logged_in_world)
qed

end
